theory Spec2Isabelle
  imports Complex_Main
begin

section \<open>Preliminaries: Python and numpy primitives\<close>

text \<open>
  The development embeds \<^verbatim>\<open>vent/io/devices/sensors.py\<close> and
  \<^verbatim>\<open>vent/alarm/alarm.py\<close>.

  Conventions of the embedding.
  \<^item> A Python float is a \<^typ>\<open>real\<close>: the rounding of float64 arithmetic, and float64
    infinities and NaN, are outside the model.
  \<^item> A numpy scalar, and in particular a cell of the float16 array that backs a sensor,
    is an \<open>npfloat\<close>: a real number or an infinity. Assigning a value to a cell narrows
    it to float16 (\<open>np_float16\<close>): round to nearest, ties to even, with underflow to zero
    and overflow to infinity.
  \<^item> Python integers are \<^typ>\<open>int\<close>.
  \<^item> Every \<^verbatim>\<open>raise\<close> is a value \<open>Inl e\<close> of the result type \<open>error + 'a\<close>; the object
    a method leaves behind when it raises is not part of the result.
  \<^item> \<^verbatim>\<open>time.time()\<close> is an input: operations that read the clock take the reading
    \<open>now\<close> as an argument.
  \<^item> A Python attribute \<^verbatim>\<open>_name\<close> is the record field \<open>u_name\<close>.
\<close>

datatype error = RuntimeWarning | ZeroDivisionError | IndexError | ValueError

datatype npfloat = Finite real | PosInf | NegInf

text \<open>
  Rounding a non-negative real to the nearest integer, ties to the even one.
\<close>

definition round_half_even :: "real \<Rightarrow> int" where
  "round_half_even y =
     (let f = \<lfloor>y\<rfloor>; d = y - of_int f
      in if d < 1 / 2 then f
         else if 1 / 2 < d then f + 1
         else if even f then f else f + 1)"

text \<open>
  IEEE 754 binary16 has 10 fraction bits, exponents from \<open>-14\<close> to \<open>15\<close> and subnormals
  that are multiples of \<open>2 ^ -24\<close>. For a magnitude \<open>a\<close>, scaled to \<open>A = a * 2 ^ 24\<close>, the
  spacing of the representable numbers around it is \<open>2 ^ k\<close> in the scaled unit, where
  \<open>k\<close> is the least number in \<open>0..29\<close> with \<open>A < 2 ^ (k + 11)\<close>, and 29 if there is none.
  \<open>float16_spacing A k n\<close> searches upwards from \<open>k\<close> for at most \<open>n\<close> steps.
\<close>

fun float16_spacing :: "real \<Rightarrow> nat \<Rightarrow> nat \<Rightarrow> nat" where
  "float16_spacing A k 0 = k"
| "float16_spacing A k (Suc n) =
     (if A < 2 ^ (k + 11) then k else float16_spacing A (Suc k) n)"

text \<open>
  The float16 nearest to a magnitude \<open>a \<ge> 0\<close>, or \<open>None\<close> when the rounded magnitude
  reaches \<open>2 ^ 16\<close>, which is beyond the largest float16, 65504.
\<close>

definition float16_magnitude :: "real \<Rightarrow> real option" where
  "float16_magnitude a =
     (let A = a * 2 ^ 24;
          k = float16_spacing A 0 29;
          n = round_half_even (A / 2 ^ k)
      in if (2 :: real) ^ 40 \<le> of_int n * 2 ^ k then None
         else Some (of_int n * 2 ^ k / 2 ^ 24))"

text \<open>\<^verbatim>\<open>np.float16(x)\<close> for a Python float \<open>x\<close>.\<close>

definition float16_of_real :: "real \<Rightarrow> npfloat" where
  "float16_of_real x =
     (if 0 \<le> x
      then (case float16_magnitude x of None \<Rightarrow> PosInf | Some m \<Rightarrow> Finite m)
      else (case float16_magnitude (- x) of None \<Rightarrow> NegInf | Some m \<Rightarrow> Finite (- m)))"

text \<open>\<^verbatim>\<open>np.float16(x)\<close> for a numpy scalar \<open>x\<close>: an infinity stays what it is.\<close>

definition np_float16 :: "npfloat \<Rightarrow> npfloat" where
  "np_float16 x =
     (case x of Finite r \<Rightarrow> float16_of_real r | PosInf \<Rightarrow> PosInf | NegInf \<Rightarrow> NegInf)"

text \<open>
  \<^verbatim>\<open>x + y\<close> for a numpy scalar \<open>x\<close> and a Python float \<open>y\<close>: the result is a numpy
  scalar, and an infinity absorbs the finite summand.
\<close>

definition np_add :: "npfloat \<Rightarrow> real \<Rightarrow> npfloat" where
  "np_add x y =
     (case x of Finite r \<Rightarrow> Finite (r + y) | PosInf \<Rightarrow> PosInf | NegInf \<Rightarrow> NegInf)"

text \<open>\<^verbatim>\<open>a % b\<close> on Python integers: floor modulus, \<^verbatim>\<open>ZeroDivisionError\<close> for \<open>b = 0\<close>.\<close>

definition py_mod :: "int \<Rightarrow> int \<Rightarrow> error + int" where
  "py_mod a b = (if b = 0 then Inl ZeroDivisionError else Inr (a mod b))"

text \<open>\<^verbatim>\<open>a / b\<close> on Python numbers: true division, \<^verbatim>\<open>ZeroDivisionError\<close> for \<open>b = 0\<close>.\<close>

definition py_truediv :: "real \<Rightarrow> real \<Rightarrow> error + real" where
  "py_truediv a b = (if b = 0 then Inl ZeroDivisionError else Inr (a / b))"

text \<open>\<^verbatim>\<open>np.zeros(n, dtype=np.float16)\<close>: \<^verbatim>\<open>ValueError\<close> for a negative dimension.\<close>

definition np_zeros :: "int \<Rightarrow> error + npfloat list" where
  "np_zeros n = (if n < 0 then Inl ValueError else Inr (replicate (nat n) (Finite 0)))"

text \<open>
  Index normalisation of a one-dimensional numpy array of length \<open>n\<close>: a negative index
  counts from the end, anything outside \<open>-n \<le> k < n\<close> is an \<^verbatim>\<open>IndexError\<close>.
\<close>

definition np_index :: "nat \<Rightarrow> int \<Rightarrow> error + nat" where
  "np_index n k =
     (if 0 \<le> k \<and> k < int n then Inr (nat k)
      else if k < 0 \<and> - int n \<le> k then Inr (nat (int n + k))
      else Inl IndexError)"

definition np_getitem :: "npfloat list \<Rightarrow> int \<Rightarrow> error + npfloat" where
  "np_getitem a k =
     (case np_index (length a) k of Inl e \<Rightarrow> Inl e | Inr j \<Rightarrow> Inr (a ! j))"

text \<open>
  \<^verbatim>\<open>a[k] = v\<close> on a float16 array: the value is narrowed to float16 as it is stored.
\<close>

definition np_setitem :: "npfloat list \<Rightarrow> int \<Rightarrow> npfloat \<Rightarrow> error + npfloat list" where
  "np_setitem a k v =
     (case np_index (length a) k of
        Inl e \<Rightarrow> Inl e
      | Inr j \<Rightarrow> Inr (a[j := np_float16 v]))"

text \<open>
  \<^verbatim>\<open>np.roll(a, shift)\<close> on a one-dimensional array: the element at position \<open>k\<close> moves to
  position \<open>(k + shift) mod n\<close>; an empty array is returned unchanged.
\<close>

definition np_roll :: "npfloat list \<Rightarrow> int \<Rightarrow> npfloat list" where
  "np_roll a shift =
     (if a = [] then [] else rotate (nat ((- shift) mod int (length a))) a)"

text \<open>
  \<^verbatim>\<open>a[a.astype(bool)]\<close>: the elements of \<open>a\<close> that are not zero, in order (an infinity
  is not zero).
\<close>

definition np_nonzero_select :: "npfloat list \<Rightarrow> npfloat list" where
  "np_nonzero_select a = filter (\<lambda>x. x \<noteq> Finite 0) a"

section \<open>The Sensor base class\<close>

record Sensor =
  u_data :: "npfloat list"
  u_i :: int
  u_data_length :: int
  u_last_timestamp :: real

definition DEFAULT_STORED_OBSERVATIONS :: int where
  "DEFAULT_STORED_OBSERVATIONS = 128"

text \<open>\<^verbatim>\<open>Sensor.__init__\<close>.\<close>

definition Sensor_init :: Sensor where
  "Sensor_init =
     \<lparr>u_data = replicate (nat DEFAULT_STORED_OBSERVATIONS) (Finite 0),
      u_i = 0,
      u_data_length = DEFAULT_STORED_OBSERVATIONS,
      u_last_timestamp = - 1\<rparr>"

text \<open>The property \<^verbatim>\<open>data_length\<close> (getter).\<close>

definition data_length :: "'a Sensor_scheme \<Rightarrow> int" where
  "data_length self = u_data_length self"

text \<open>\<^verbatim>\<open>Sensor.reset\<close>.\<close>

definition reset :: "'a Sensor_scheme \<Rightarrow> error + 'a Sensor_scheme" where
  "reset self =
     (case np_zeros (data_length self) of
        Inl e \<Rightarrow> Inl e
      | Inr z \<Rightarrow> Inr (self\<lparr>u_data := z, u_i := 0\<rparr>))"

text \<open>
  The setter of \<^verbatim>\<open>data_length\<close>: stores the new length, then calls \<^verbatim>\<open>reset\<close>.
\<close>

definition set_data_length :: "int \<Rightarrow> 'a Sensor_scheme \<Rightarrow> error + 'a Sensor_scheme" where
  "set_data_length new_data_length self =
     reset (self\<lparr>u_data_length := new_data_length\<rparr>)"

text \<open>\<^verbatim>\<open>Sensor.__store_last\<close>; the value arrives as a numpy scalar.\<close>

definition store_last :: "'a Sensor_scheme \<Rightarrow> npfloat \<Rightarrow> error + 'a Sensor_scheme" where
  "store_last self v =
     (case np_setitem (u_data self) (u_i self) v of
        Inl e \<Rightarrow> Inl e
      | Inr d \<Rightarrow>
          (case py_mod (u_i self + 1) (data_length self) of
             Inl e \<Rightarrow> Inl e
           | Inr k \<Rightarrow> Inr (self\<lparr>u_data := d, u_i := k\<rparr>)))"

text \<open>\<^verbatim>\<open>Sensor.get\<close>.\<close>

definition get :: "'a Sensor_scheme \<Rightarrow> error + npfloat" where
  "get self =
     (if u_last_timestamp self = - 1 then Inl RuntimeWarning
      else (case py_mod (u_i self - 1) (u_data_length self) of
              Inl e \<Rightarrow> Inl e
            | Inr k \<Rightarrow> np_getitem (u_data self) k))"

text \<open>\<^verbatim>\<open>Sensor.age\<close>, with the clock reading \<open>now\<close>.\<close>

definition age :: "real \<Rightarrow> 'a Sensor_scheme \<Rightarrow> real" where
  "age now self =
     (if u_last_timestamp self = - 1 then - 1 else now - u_last_timestamp self)"

text \<open>The property \<^verbatim>\<open>Sensor.data\<close>.\<close>

definition data :: "'a Sensor_scheme \<Rightarrow> npfloat list" where
  "data self =
     (let rolled = np_roll (u_data self) (data_length self - u_i self)
      in np_nonzero_select rolled)"

text \<open>
  \<^verbatim>\<open>Sensor.update\<close>. The three abstract methods are arguments: \<open>raw_read\<close> may change the
  object (and fail), \<open>convert\<close> reads it, \<open>verify\<close> may change it. As in the source,
  \<open>verify\<close> is called once to decide whether to store and once more to compute the
  returned flag. The readings of a subclass have a type \<open>'v\<close> of their own (\<^typ>\<open>real\<close>
  where they are Python floats, \<open>npfloat\<close> where they can be numpy scalars); the first
  argument \<open>as_scalar\<close> says how such a reading is seen by numpy when it is assigned to a
  cell of the array.
\<close>

definition update ::
  "('v \<Rightarrow> npfloat) \<Rightarrow>
   ('a Sensor_scheme \<Rightarrow> error + 'r \<times> 'a Sensor_scheme) \<Rightarrow>
   ('a Sensor_scheme \<Rightarrow> 'r \<Rightarrow> error + 'v) \<Rightarrow>
   ('a Sensor_scheme \<Rightarrow> 'v \<Rightarrow> error + bool \<times> 'a Sensor_scheme) \<Rightarrow>
   real \<Rightarrow> 'a Sensor_scheme \<Rightarrow> error + bool \<times> 'a Sensor_scheme" where
  "update as_scalar raw_read convert verify now self =
     (case raw_read self of
        Inl e \<Rightarrow> Inl e
      | Inr (raw, s1) \<Rightarrow>
     (case convert s1 raw of
        Inl e \<Rightarrow> Inl e
      | Inr v \<Rightarrow>
     (case verify s1 v of
        Inl e \<Rightarrow> Inl e
      | Inr (ok, s2) \<Rightarrow>
     (case (if ok
            then (case store_last s2 (as_scalar v) of
                    Inl e \<Rightarrow> Inl e
                  | Inr s3 \<Rightarrow> Inr (s3\<lparr>u_last_timestamp := now\<rparr>))
            else Inr s2) of
        Inl e \<Rightarrow> Inl e
      | Inr s4 \<Rightarrow> verify s4 v))))"

text \<open>
  A run of \<^verbatim>\<open>__store_last\<close> calls, one per value of the list, in order; the first
  exception ends the run.
\<close>

fun pushes :: "'a Sensor_scheme \<Rightarrow> npfloat list \<Rightarrow> error + 'a Sensor_scheme" where
  "pushes self [] = Inr self"
| "pushes self (v # vs) =
     (case store_last self v of Inl e \<Rightarrow> Inl e | Inr s \<Rightarrow> pushes s vs)"

text \<open>
  The representation invariant of the ring buffer: a capacity of at least one, an array
  of exactly that many cells, and a cursor inside it.
\<close>

definition wf :: "'a Sensor_scheme \<Rightarrow> bool" where
  "wf self =
     (1 \<le> u_data_length self \<and> length (u_data self) = nat (u_data_length self) \<and>
      0 \<le> u_i self \<and> u_i self < u_data_length self)"

section \<open>AnalogSensor\<close>

text \<open>
  Only the calibration attributes are state of the model. The ADC handle and the
  ADC's configurable fields (\<^verbatim>\<open>MUX\<close>, ...) are passed through to the collaborator
  \<^verbatim>\<open>adc.read_conversion\<close>, whose answer is an input of \<open>AnalogSensor_raw_read\<close>.
\<close>

record AnalogSensor = Sensor +
  offset_voltage :: real
  output_span :: real
  conversion_factor :: real

definition DEFAULT_offset_voltage :: real where
  "DEFAULT_offset_voltage = 0"

definition DEFAULT_output_span :: real where
  "DEFAULT_output_span = 5"

text \<open>
  \<^verbatim>\<open>AnalogSensor.__init__\<close> for the calibration keywords: a keyword that is given sets the
  attribute (\<^verbatim>\<open>_check_and_set_attr\<close>), one that is missing takes its value from
  \<^verbatim>\<open>_DEFAULT_CALIBRATION\<close> (\<^verbatim>\<open>_fill_attr\<close>).
\<close>

definition AnalogSensor_init :: "real option \<Rightarrow> real option \<Rightarrow> real option \<Rightarrow> AnalogSensor" where
  "AnalogSensor_init kw_offset_voltage kw_output_span kw_conversion_factor =
     \<lparr>u_data = u_data Sensor_init,
      u_i = u_i Sensor_init,
      u_data_length = u_data_length Sensor_init,
      u_last_timestamp = u_last_timestamp Sensor_init,
      offset_voltage =
        (case kw_offset_voltage of None \<Rightarrow> DEFAULT_offset_voltage | Some x \<Rightarrow> x),
      output_span =
        (case kw_output_span of None \<Rightarrow> DEFAULT_output_span | Some x \<Rightarrow> x),
      conversion_factor =
        (case kw_conversion_factor of None \<Rightarrow> 1 | Some x \<Rightarrow> x)\<rparr>"

text \<open>\<^verbatim>\<open>AnalogSensor._verify\<close>.\<close>

definition AnalogSensor_verify ::
  "'a AnalogSensor_scheme \<Rightarrow> real \<Rightarrow> error + bool \<times> 'a AnalogSensor_scheme" where
  "AnalogSensor_verify self v =
     (case py_truediv v (conversion_factor self) of
        Inl e \<Rightarrow> Inl e
      | Inr q \<Rightarrow>
          (let report = (0 \<le> q \<and> q \<le> 1) in
           if \<not> report then
             (let s1 = self\<lparr>offset_voltage := min (offset_voltage self) v\<rparr>;
                  s2 = s1\<lparr>output_span := max (output_span s1) (v - offset_voltage s1)\<rparr>
              in Inr (report, s2))
           else Inr (report, self)))"

text \<open>\<^verbatim>\<open>AnalogSensor._convert\<close>.\<close>

definition AnalogSensor_convert :: "'a AnalogSensor_scheme \<Rightarrow> real \<Rightarrow> error + real" where
  "AnalogSensor_convert self raw =
     py_truediv (conversion_factor self * (raw - offset_voltage self)) (output_span self)"

text \<open>
  \<^verbatim>\<open>AnalogSensor._raw_read\<close>: \<open>adc_voltage\<close> is what \<^verbatim>\<open>adc.read_conversion\<close> returns.
\<close>

definition AnalogSensor_raw_read ::
  "real \<Rightarrow> 'a AnalogSensor_scheme \<Rightarrow> error + real \<times> 'a AnalogSensor_scheme" where
  "AnalogSensor_raw_read adc_voltage self = Inr (adc_voltage, self)"

section \<open>SFM3200, the digital flow sensor\<close>

definition FLOW_OFFSET :: int where
  "FLOW_OFFSET = 32768"

definition FLOW_SCALE_FACTOR :: int where
  "FLOW_SCALE_FACTOR = 120"

text \<open>\<^verbatim>\<open>SFM3200._verify\<close>.\<close>

definition SFM3200_verify :: "'a Sensor_scheme \<Rightarrow> real \<Rightarrow> error + bool \<times> 'a Sensor_scheme" where
  "SFM3200_verify self v = Inr (True, self)"

text \<open>\<^verbatim>\<open>SFM3200._convert\<close>: an integer subtraction, then a true division.\<close>

definition SFM3200_convert :: "'a Sensor_scheme \<Rightarrow> int \<Rightarrow> error + real" where
  "SFM3200_convert self raw =
     py_truediv (of_int (raw - FLOW_OFFSET)) (of_int FLOW_SCALE_FACTOR)"

text \<open>
  \<^verbatim>\<open>SFM3200._raw_read\<close>: \<open>frame_value\<close> is what \<^verbatim>\<open>be16_to_native(self.read_device(4))\<close>
  returns; both functions belong to the bus collaborator.
\<close>

definition SFM3200_raw_read :: "int \<Rightarrow> 'a Sensor_scheme \<Rightarrow> error + int \<times> 'a Sensor_scheme" where
  "SFM3200_raw_read frame_value self = Inr (frame_value, self)"

section \<open>SimSensor\<close>

text \<open>
  The generator behind \<^verbatim>\<open>random()\<close> is part of the state: \<open>draws\<close> is the sequence of
  numbers it will return and \<open>drawn\<close> counts the calls made so far.
\<close>

record SimSensor = Sensor +
  low :: real
  high :: real
  draws :: "nat \<Rightarrow> real"
  drawn :: nat

definition SimSensor_init :: "real \<Rightarrow> real \<Rightarrow> (nat \<Rightarrow> real) \<Rightarrow> SimSensor" where
  "SimSensor_init lo hi rng =
     \<lparr>u_data = u_data Sensor_init,
      u_i = u_i Sensor_init,
      u_data_length = u_data_length Sensor_init,
      u_last_timestamp = u_last_timestamp Sensor_init,
      low = lo, high = hi, draws = rng, drawn = 0\<rparr>"

text \<open>One call of \<^verbatim>\<open>random()\<close>.\<close>

definition random :: "'a SimSensor_scheme \<Rightarrow> real \<times> 'a SimSensor_scheme" where
  "random self = (draws self (drawn self), self\<lparr>drawn := drawn self + 1\<rparr>)"

text \<open>\<^verbatim>\<open>SimSensor._verify\<close>.\<close>

definition SimSensor_verify ::
  "'a SimSensor_scheme \<Rightarrow> npfloat \<Rightarrow> error + bool \<times> 'a SimSensor_scheme" where
  "SimSensor_verify self v =
     (case random self of
        (r, s) \<Rightarrow> if r > 999 / 1000 then Inr (False, s) else Inr (True, s))"

text \<open>\<^verbatim>\<open>SimSensor._convert\<close>.\<close>

definition SimSensor_convert :: "'a SimSensor_scheme \<Rightarrow> npfloat \<Rightarrow> error + npfloat" where
  "SimSensor_convert self raw = Inr raw"

text \<open>
  \<^verbatim>\<open>SimSensor._raw_read\<close>. The first branch computes with Python floats; the second adds
  a Python float to the float16 scalar that \<^verbatim>\<open>get\<close> returns.
\<close>

definition SimSensor_raw_read ::
  "'a SimSensor_scheme \<Rightarrow> error + npfloat \<times> 'a SimSensor_scheme" where
  "SimSensor_raw_read self =
     (if u_i self = 0
      then (case random self of (r, s) \<Rightarrow> Inr (Finite (low self + r * high self), s))
      else (case get self of
              Inl e \<Rightarrow> Inl e
            | Inr g \<Rightarrow>
                (case random self of (r, s) \<Rightarrow> Inr (np_add g (r * (high self / 100)), s))))"

section \<open>Alarm\<close>

text \<open>
  Modelled from the spec: the enumeration \<^verbatim>\<open>AlarmSeverity\<close> is declared in
  \<^verbatim>\<open>vent/alarm/__init__.py\<close>, which is not among the sources. The spec calls severity an
  enumerated variant and names one member, \<open>OFF\<close>; every other member is \<open>Severity n\<close>
  here. The enumeration \<^verbatim>\<open>AlarmType\<close>, declared in the same place, is a type parameter.
\<close>

datatype AlarmSeverity = OFF | Severity nat

record 't Alarm =
  alarm_id :: int
  u_severity :: AlarmSeverity
  u_alarm_type :: 't
  start_time :: real
  active :: bool
  end_time :: "real option"
  alarm_value :: "real option"
  message :: "string option"
  latch :: bool
  persistent :: bool

text \<open>
  The class attribute \<^verbatim>\<open>id_counter = count()\<close>: its state is the next number it will
  give out, initially 0.
\<close>

definition id_counter_init :: int where
  "id_counter_init = 0"

text \<open>\<^verbatim>\<open>next(Alarm.id_counter)\<close>: the number given out and the new state.\<close>

definition next_id :: "int \<Rightarrow> int \<times> int" where
  "next_id id_counter = (id_counter, id_counter + 1)"

text \<open>
  \<^verbatim>\<open>Alarm.__init__\<close>, on the state \<open>id_counter\<close> of the class counter and the clock reading
  \<open>now\<close>. The attribute \<^verbatim>\<open>id\<close> is the field \<open>alarm_id\<close>, \<^verbatim>\<open>value\<close> is \<open>alarm_value\<close>.
  The \<^verbatim>\<open>isinstance\<close> assertions hold by typing.
\<close>

definition Alarm_init ::
  "int \<Rightarrow> real \<Rightarrow> 't \<Rightarrow> AlarmSeverity \<Rightarrow> real option \<Rightarrow> bool \<Rightarrow> bool \<Rightarrow>
   real option \<Rightarrow> string option \<Rightarrow> 't Alarm \<times> int" where
  "Alarm_init id_counter now alarm_type severity start_time_arg latch_arg persistent_arg
     value_arg message_arg =
     (case next_id id_counter of
        (n, id_counter') \<Rightarrow>
          (\<lparr>alarm_id = n,
            u_severity = severity,
            u_alarm_type = alarm_type,
            start_time = (case start_time_arg of None \<Rightarrow> now | Some t \<Rightarrow> t),
            active = (if severity = OFF then False else True),
            end_time = None,
            alarm_value = value_arg,
            message = message_arg,
            latch = latch_arg,
            persistent = persistent_arg\<rparr>,
           id_counter'))"

text \<open>The read-only properties \<^verbatim>\<open>severity\<close> and \<^verbatim>\<open>alarm_type\<close>.\<close>

definition severity :: "('t, 'a) Alarm_scheme \<Rightarrow> AlarmSeverity" where
  "severity self = u_severity self"

definition alarm_type :: "('t, 'a) Alarm_scheme \<Rightarrow> 't" where
  "alarm_type self = u_alarm_type self"

text \<open>\<^verbatim>\<open>Alarm.deactivate\<close>, with the clock reading \<open>now\<close>.\<close>

definition deactivate :: "real \<Rightarrow> ('t, 'a) Alarm_scheme \<Rightarrow> ('t, 'a) Alarm_scheme" where
  "deactivate now self =
     (if \<not> active self then self
      else self\<lparr>end_time := Some now, active := False\<rparr>)"

text \<open>A run of \<^verbatim>\<open>deactivate\<close> calls, one per clock reading of the list, in order.\<close>

fun deactivations :: "real list \<Rightarrow> ('t, 'a) Alarm_scheme \<Rightarrow> ('t, 'a) Alarm_scheme" where
  "deactivations [] self = self"
| "deactivations (t # ts) self = deactivations ts (deactivate t self)"

text \<open>
  The arguments of one construction: the clock reading at that moment and the
  arguments of \<^verbatim>\<open>Alarm.__init__\<close>.
\<close>

type_synonym 't alarm_args =
  "real \<times> 't \<times> AlarmSeverity \<times> real option \<times> bool \<times> bool \<times> real option \<times> string option"

text \<open>
  A run of constructions in one process, threading the class counter; the alarms are
  returned in allocation order.
\<close>

fun construct_all :: "int \<Rightarrow> 't alarm_args list \<Rightarrow> 't Alarm list \<times> int" where
  "construct_all id_counter [] = ([], id_counter)"
| "construct_all id_counter ((now, ty, sev, st, la, pe, va, me) # rest) =
     (case Alarm_init id_counter now ty sev st la pe va me of
        (a, id_counter') \<Rightarrow>
          (case construct_all id_counter' rest of
             (as, id_counter'') \<Rightarrow> (a # as, id_counter'')))"

text \<open>
  The scenario of the buffer property: a fresh sensor, its capacity set to \<open>C\<close>, the
  values \<open>vs\<close> stored in order, and then the property \<^verbatim>\<open>data\<close> read.
\<close>

definition snapshot_after :: "int \<Rightarrow> npfloat list \<Rightarrow> error + npfloat list" where
  "snapshot_after C vs =
     (case set_data_length C Sensor_init of
        Inl e \<Rightarrow> Inl e
      | Inr s0 \<Rightarrow> (case pushes s0 vs of Inl e \<Rightarrow> Inl e | Inr s \<Rightarrow> Inr (data s)))"

section \<open>Histories of a sensor\<close>








text \<open>Two objects that agree on the attributes of the base class.\<close>

definition same_base :: "'a Sensor_scheme \<Rightarrow> 'a Sensor_scheme \<Rightarrow> bool" where
  "same_base x y =
     (u_data y = u_data x \<and> u_i y = u_i x \<and> u_data_length y = u_data_length x \<and>
      u_last_timestamp y = u_last_timestamp x)"


section \<open>The ring buffer\<close>

lemma store_last_wf:
  assumes "wf s"
  shows "store_last s v =
           Inr (s\<lparr>u_data := (u_data s)[nat (u_i s) := np_float16 v],
                  u_i := (u_i s + 1) mod u_data_length s\<rparr>)"
  using assms by (auto simp: wf_def store_last_def np_setitem_def np_index_def py_mod_def data_length_def)

lemma roll_wf:
  assumes "wf s"
  shows "np_roll (u_data s) (data_length s - u_i s) = rotate (nat (u_i s)) (u_data s)"
proof -
  from assms have ne: "u_data s \<noteq> []" and len: "int (length (u_data s)) = u_data_length s"
    and i: "0 \<le> u_i s" "u_i s < u_data_length s"
    by (auto simp: wf_def)
  have "(- (u_data_length s - u_i s)) mod u_data_length s = u_i s"
    using i by (simp add: mod_pos_pos_trivial)
  then show ?thesis using ne len by (simp add: np_roll_def data_length_def)
qed

lemma rotate_step:
  assumes "i < length d"
  shows "rotate ((i + 1) mod length d) (d[i := v]) = tl (rotate i d) @ [v]"
proof -
  have r: "rotate i d = drop i d @ take i d" using assms by (simp add: rotate_drop_take)
  have dne: "drop i d \<noteq> []" using assms by simp
  have tl_eq: "tl (rotate i d) = drop (Suc i) d @ take i d"
    using dne r by (simp add: tl_drop drop_Suc)
  show ?thesis
  proof (cases "Suc i = length d")
    case True
    then have "rotate ((i + 1) mod length d) (d[i := v]) = d[i := v]" by simp
    also have "\<dots> = take i d @ [v]" using True
      by (metis assms drop_all le_refl upd_conv_take_nth_drop)
    finally show ?thesis using tl_eq True by simp
  next
    case False
    then have lt: "Suc i < length d" using assms by simp
    then have "rotate ((i + 1) mod length d) (d[i := v]) = drop (Suc i) (d[i := v]) @ take (Suc i) (d[i := v])"
      by (simp add: rotate_drop_take)
    also have "\<dots> = drop (Suc i) d @ take i d @ [v]"
      using assms by (simp add: take_Suc_conv_app_nth)
    finally show ?thesis using tl_eq by simp
  qed
qed


lemma store_last_wf_keeps:
  assumes "wf s"
  shows "\<exists>s'. store_last s v = Inr s' \<and> wf s' \<and> u_data_length s' = u_data_length s
        \<and> u_last_timestamp s' = u_last_timestamp s \<and> Sensor.more s' = Sensor.more s
        \<and> rotate (nat (u_i s')) (u_data s')
            = tl (rotate (nat (u_i s)) (u_data s)) @ [np_float16 v]"
proof -
  let ?L = "u_data_length s"
  let ?s' = "s\<lparr>u_data := (u_data s)[nat (u_i s) := np_float16 v], u_i := (u_i s + 1) mod ?L\<rparr>"
  from assms have L: "1 \<le> ?L" and len: "length (u_data s) = nat ?L"
    and i: "0 \<le> u_i s" "u_i s < ?L"
    by (auto simp: wf_def)
  have lt: "nat (u_i s) < length (u_data s)" using len i by simp
  have idx: "nat ((u_i s + 1) mod ?L) = (nat (u_i s) + 1) mod length (u_data s)"
    using len i L by (simp add: nat_mod_distrib nat_add_distrib)
  have "wf ?s'" using L len i by (simp add: wf_def)
  moreover have "rotate (nat (u_i ?s')) (u_data ?s')
                   = tl (rotate (nat (u_i s)) (u_data s)) @ [np_float16 v]"
    using rotate_step [OF lt, of "np_float16 v"] idx by simp
  ultimately show ?thesis using store_last_wf [OF assms, of v] by simp
qed

lemma pushes_wf:
  assumes "wf s"
  shows "\<exists>s'. pushes s vs = Inr s' \<and> wf s' \<and> u_data_length s' = u_data_length s
        \<and> u_last_timestamp s' = u_last_timestamp s \<and> Sensor.more s' = Sensor.more s
        \<and> rotate (nat (u_i s')) (u_data s')
            = drop (length vs) (rotate (nat (u_i s)) (u_data s) @ map np_float16 vs)"
  using assms
proof (induction vs arbitrary: s)
  case Nil
  then show ?case by simp
next
  case (Cons v vs)
  from store_last_wf_keeps [OF Cons.prems, of v] obtain s1 where
    s1: "store_last s v = Inr s1" "wf s1" "u_data_length s1 = u_data_length s"
      "u_last_timestamp s1 = u_last_timestamp s" "Sensor.more s1 = Sensor.more s"
      "rotate (nat (u_i s1)) (u_data s1)
         = tl (rotate (nat (u_i s)) (u_data s)) @ [np_float16 v]"
    by blast
  from Cons.IH [OF s1(2)] obtain s' where
    s': "pushes s1 vs = Inr s'" "wf s'" "u_data_length s' = u_data_length s1"
      "u_last_timestamp s' = u_last_timestamp s1" "Sensor.more s' = Sensor.more s1"
      "rotate (nat (u_i s')) (u_data s')
         = drop (length vs) (rotate (nat (u_i s1)) (u_data s1) @ map np_float16 vs)"
    by blast
  have ne: "rotate (nat (u_i s)) (u_data s) \<noteq> []"
    using Cons.prems by (auto simp: wf_def)
  then obtain r R where R: "rotate (nat (u_i s)) (u_data s) = r # R"
    by (cases "rotate (nat (u_i s)) (u_data s)") auto
  have "drop (length vs) (rotate (nat (u_i s1)) (u_data s1) @ map np_float16 vs)
        = drop (length (v # vs)) (rotate (nat (u_i s)) (u_data s) @ map np_float16 (v # vs))"
    using s1(6) R by simp
  with s1 s' show ?case by simp
qed

lemma data_wf:
  assumes "wf s"
  shows "data s = filter (\<lambda>x. x \<noteq> Finite 0) (rotate (nat (u_i s)) (u_data s))"
  using roll_wf [OF assms] by (simp add: data_def np_nonzero_select_def)

lemma set_data_length_fresh:
  assumes "1 \<le> C"
  shows "set_data_length C s =
           Inr (s\<lparr>u_data_length := C, u_data := replicate (nat C) (Finite 0), u_i := 0\<rparr>)"
    and "wf (s\<lparr>u_data_length := C, u_data := replicate (nat C) (Finite 0), u_i := 0\<rparr>)"
  using assms by (simp_all add: set_data_length_def reset_def np_zeros_def data_length_def wf_def)

text \<open>
  The snapshot for every capacity \<open>C \<ge> 1\<close> and every sequence of pushes: the float16
  values of the last \<open>min N C\<close> pushes that are not zero.
\<close>

lemma snapshot_after_eq:
  assumes "1 \<le> C"
  shows "snapshot_after C vs =
           Inr (filter (\<lambda>x. x \<noteq> Finite 0) (map np_float16 (drop (length vs - nat C) vs)))"
proof -
  let ?s0 = "Sensor_init\<lparr>u_data_length := C, u_data := replicate (nat C) (Finite 0), u_i := 0\<rparr>"
  have s0: "set_data_length C Sensor_init = Inr ?s0" and wf0: "wf ?s0"
    using set_data_length_fresh [OF assms, of Sensor_init] by simp_all
  from pushes_wf [OF wf0, of vs] obtain s' where
    s': "pushes ?s0 vs = Inr s'" "wf s'"
      "rotate (nat (u_i s')) (u_data s') =
         drop (length vs) (rotate (nat (u_i ?s0)) (u_data ?s0) @ map np_float16 vs)"
    by blast
  have "data s' = filter (\<lambda>x. x \<noteq> Finite 0)
                    (drop (length vs) (replicate (nat C) (Finite 0) @ map np_float16 vs))"
    using data_wf [OF s'(2)] s'(3) by simp
  also have "\<dots> = filter (\<lambda>x. x \<noteq> Finite 0) (map np_float16 (drop (length vs - nat C) vs))"
    by (simp add: drop_map)
  finally show ?thesis using s0 s'(1) by (simp add: snapshot_after_def)
qed

text \<open>
  When no pushed value is stored as zero, the snapshot is the float16 values of the last
  \<open>min N C\<close> pushes, in push order.
\<close>

lemma snapshot_after_nonzero:
  assumes "1 \<le> C" and "Finite 0 \<notin> np_float16 ` set vs"
  shows "snapshot_after C vs = Inr (map np_float16 (drop (length vs - nat C) vs))"
    and "length (map np_float16 (drop (length vs - nat C) vs)) = min (length vs) (nat C)"
proof -
  have "Finite 0 \<notin> set (map np_float16 (drop (length vs - nat C) vs))"
  proof
    assume "Finite 0 \<in> set (map np_float16 (drop (length vs - nat C) vs))"
    then obtain x where x: "x \<in> set (drop (length vs - nat C) vs)" "np_float16 x = Finite 0"
      by auto
    from x(1) have "x \<in> set vs" by (rule in_set_dropD)
    with x(2) have "Finite 0 \<in> np_float16 ` set vs" by force
    with assms(2) show False by simp
  qed
  then have "\<forall>x \<in> set (map np_float16 (drop (length vs - nat C) vs)). x \<noteq> Finite 0"
    by blast
  then have "filter (\<lambda>x. x \<noteq> Finite 0) (map np_float16 (drop (length vs - nat C) vs))
               = map np_float16 (drop (length vs - nat C) vs)"
    by (rule filter_True)
  then show "snapshot_after C vs = Inr (map np_float16 (drop (length vs - nat C) vs))"
    using snapshot_after_eq [OF assms(1), of vs] by simp
  show "length (map np_float16 (drop (length vs - nat C) vs)) = min (length vs) (nat C)"
    by simp
qed

text \<open>
  C1. The claim: for every capacity \<open>C \<ge> 1\<close> and every sequence of \<open>N\<close> pushed
  observations, \<^verbatim>\<open>data\<close> returns exactly \<open>min N C\<close> values, oldest first, equal to the
  last \<open>min N C\<close> pushed values. The docstring of \<^verbatim>\<open>data\<close> promises the same length.
  The code selects the non-zero cells of the rolled array, so a stored reading of \<open>0.0\<close>
  is dropped: with capacity 4 and pushes \<open>1, 0, 2\<close> the snapshot is \<open>[1, 2]\<close>; with the
  default capacity and the single push \<open>0\<close> it is empty; and an AnalogSensor with the
  default calibration whose ADC reads 0 V reports a successful update and still shows
  no data.
\<close>

theorem data_drops_zero_readings:
  "snapshot_after 4 [Finite 1, Finite 0, Finite 2] = Inr [Finite 1, Finite 2] \<and>
   snapshot_after 128 [Finite 0] = Inr [] \<and>
   map_sum id (\<lambda>(ok, s). (ok, data s))
     (update Finite (AnalogSensor_raw_read 0) AnalogSensor_convert AnalogSensor_verify 1000
        (AnalogSensor_init None None None)) = Inr (True, [])"
  by code_simp

section \<open>Sensor.update\<close>

text \<open>
  The control flow of \<^verbatim>\<open>update\<close> once the reading, its conversion and the first call
  of \<^verbatim>\<open>_verify\<close> have returned: the flag handed back is the result of a second call of
  \<^verbatim>\<open>_verify\<close>, made on the object as the first call (and the store) left it.
\<close>

lemma update_unfold:
  assumes "raw_read s = Inr (raw, s1)" and "convert s1 raw = Inr v"
    and "verify s1 v = Inr (ok1, s2)"
  shows "update as_scalar raw_read convert verify now s =
           (if ok1
            then (case store_last s2 (as_scalar v) of
                    Inl e \<Rightarrow> Inl e
                  | Inr s3 \<Rightarrow> verify (s3\<lparr>u_last_timestamp := now\<rparr>) v)
            else verify s2 v)"
  using assms by (simp add: update_def split: sum.splits)

text \<open>
  \<^verbatim>\<open>__store_last\<close>, \<^verbatim>\<open>reset\<close> and the setter of \<^verbatim>\<open>data_length\<close> leave the timestamp and
  the attributes of the subclass alone.
\<close>

lemma store_last_frame:
  assumes "store_last s v = Inr s'"
  shows "Sensor.more s' = Sensor.more s" and "u_last_timestamp s' = u_last_timestamp s"
    and "u_data_length s' = u_data_length s"
  using assms by (auto simp: store_last_def split: sum.splits)

lemma reset_frame:
  assumes "reset s = Inr s'"
  shows "Sensor.more s' = Sensor.more s" and "u_last_timestamp s' = u_last_timestamp s"
    and "u_data_length s' = u_data_length s"
  using assms by (auto simp: reset_def split: sum.splits)

lemma set_data_length_frame:
  assumes "set_data_length C s = Inr s'"
  shows "Sensor.more s' = Sensor.more s" and "u_last_timestamp s' = u_last_timestamp s"
  using assms by (auto simp: set_data_length_def reset_def split: sum.splits)

text \<open>
  When a second call of \<^verbatim>\<open>_verify\<close> repeats the verdict of the first and changes nothing,
  whatever the base attributes of the object, the flag returned by \<^verbatim>\<open>update\<close> tells
  whether the reading was stored.
\<close>

lemma update_repeatable_verify:
  assumes "raw_read s = Inr (raw, s1)" and "convert s1 raw = Inr v"
    and "verify s1 v = Inr (ok, s2)"
    and rep: "\<And>z. Sensor.more z = Sensor.more s2 \<Longrightarrow> verify z v = Inr (ok, z)"
  shows "update as_scalar raw_read convert verify now s =
           (if ok
            then (case store_last s2 (as_scalar v) of
                    Inl e \<Rightarrow> Inl e
                  | Inr s3 \<Rightarrow> Inr (True, s3\<lparr>u_last_timestamp := now\<rparr>))
            else Inr (False, s2))"
proof -
  have u: "update as_scalar raw_read convert verify now s =
             (if ok
              then (case store_last s2 (as_scalar v) of
                      Inl e \<Rightarrow> Inl e
                    | Inr s3 \<Rightarrow> verify (s3\<lparr>u_last_timestamp := now\<rparr>) v)
              else verify s2 v)"
    using assms(1-3) by (rule update_unfold)
  show ?thesis
  proof (cases ok)
    case False
    then show ?thesis using u rep [of s2] by simp
  next
    case True
    show ?thesis
    proof (cases "store_last s2 (as_scalar v)")
      case (Inl e)
      then show ?thesis using u True by simp
    next
      case (Inr s3)
      have "Sensor.more (s3\<lparr>u_last_timestamp := now\<rparr>) = Sensor.more s2"
        using store_last_frame(1) [OF Inr] by simp
      from rep [OF this] show ?thesis using u True Inr by simp
    qed
  qed
qed

text \<open>
  C2. The claim: every call of \<^verbatim>\<open>update\<close> invokes \<^verbatim>\<open>_verify\<close> exactly once, caches the
  result and returns the cached result. The code calls \<^verbatim>\<open>self._verify(value)\<close> in the
  condition of the \<^verbatim>\<open>if\<close> and again in the \<^verbatim>\<open>return\<close>. On a fresh SimSensor whose
  generator always yields \<open>0.5\<close>, \<^verbatim>\<open>_raw_read\<close> alone consumes one number, one call of
  \<^verbatim>\<open>_verify\<close> alone consumes one number, and \<^verbatim>\<open>update\<close> consumes three: \<^verbatim>\<open>_verify\<close> ran
  twice.
\<close>

theorem update_calls_verify_twice:
  "map_sum id (\<lambda>(raw, s). drawn s) (SimSensor_raw_read (SimSensor_init 0 100 (\<lambda>n. 1 / 2))) = Inr 1 \<and>
   map_sum id (\<lambda>(ok, s). drawn s)
     (SimSensor_verify (SimSensor_init 0 100 (\<lambda>n. 1 / 2)) (Finite 50)) = Inr 1 \<and>
   map_sum id (\<lambda>(ok, s). (ok, drawn s))
     (update (\<lambda>v. v) SimSensor_raw_read SimSensor_convert SimSensor_verify 1000
        (SimSensor_init 0 100 (\<lambda>n. 1 / 2))) = Inr (True, 3)"
  by code_simp

text \<open>
  C3. The claim: \<^verbatim>\<open>update\<close> returns true if and only if the reading was stored and the
  timestamp advanced, and when it returns false the buffer, the cursor and the timestamp
  are as before. The docstring of \<^verbatim>\<open>update\<close> says the same of the returned flag. With
  the SimSensor the two calls of \<^verbatim>\<open>_verify\<close> can disagree. When the generator yields
  \<open>0.5, 0.5, 0.9995\<close> the first call accepts and the second rejects: the reading 50 is
  stored, the cursor is 1, the timestamp is the clock reading 1000, and the flag is
  false. When it yields \<open>0.5, 0.9995, 0.5\<close> the first call rejects and the second
  accepts: nothing is stored, the timestamp is still \<open>-1\<close>, and the flag is true.
\<close>

theorem update_flag_disagrees_with_store:
  "map_sum id (\<lambda>(ok, s). (ok, u_i s, u_last_timestamp s, get s))
     (update (\<lambda>v. v) SimSensor_raw_read SimSensor_convert SimSensor_verify 1000
        (SimSensor_init 0 100 (\<lambda>n. if n = 2 then 9995 / 10000 else 1 / 2)))
     = Inr (False, 1, 1000, Inr (Finite 50)) \<and>
   map_sum id (\<lambda>(ok, s). (ok, u_i s, u_last_timestamp s, u_data s = u_data Sensor_init))
     (update (\<lambda>v. v) SimSensor_raw_read SimSensor_convert SimSensor_verify 1000
        (SimSensor_init 0 100 (\<lambda>n. if n = 1 then 9995 / 10000 else 1 / 2)))
     = Inr (True, 0, - 1, True)"
  by code_simp

text \<open>
  \<^verbatim>\<open>AnalogSensor._verify\<close> and \<^verbatim>\<open>SFM3200._verify\<close> are repeatable in that sense: the
  widening of the calibration is idempotent, and the flow sensor accepts everything. For
  these two sensors \<^verbatim>\<open>update\<close> returns true exactly when it stored the reading and
  stamped the time, and a false return leaves buffer, cursor and timestamp as they were.
\<close>

lemma AnalogSensor_verify_repeatable:
  assumes "AnalogSensor_verify s v = Inr (ok, s2)" and "Sensor.more z = Sensor.more s2"
  shows "AnalogSensor_verify z v = Inr (ok, z)"
proof -
  have cf: "conversion_factor s \<noteq> 0"
    using assms(1) by (auto simp: AnalogSensor_verify_def py_truediv_def split: if_splits)
  have more: "offset_voltage z = offset_voltage s2" "output_span z = output_span s2"
    "conversion_factor z = conversion_factor s2"
    using assms(2) by (cases z; cases s2; simp)+
  show ?thesis
  proof (cases "0 \<le> v / conversion_factor s \<and> v / conversion_factor s \<le> 1")
    case True
    then have "ok" "s2 = s"
      using assms(1) cf by (auto simp: AnalogSensor_verify_def py_truediv_def Let_def)
    then show ?thesis
      using True cf more by (simp add: AnalogSensor_verify_def py_truediv_def Let_def)
  next
    case False
    then have ok: "\<not> ok"
      and s2: "s2 = s\<lparr>offset_voltage := min (offset_voltage s) v,
                      output_span := max (output_span s) (v - min (offset_voltage s) v)\<rparr>"
      using assms(1) cf by (auto simp: AnalogSensor_verify_def py_truediv_def Let_def)
    have z: "offset_voltage z = min (offset_voltage s) v"
      "output_span z = max (output_span s) (v - min (offset_voltage s) v)"
      "conversion_factor z = conversion_factor s"
      using more s2 by simp_all
    have "z\<lparr>offset_voltage := min (offset_voltage z) v,
            output_span := max (output_span z) (v - min (offset_voltage z) v)\<rparr> = z"
      using z by simp
    then show ?thesis
      using False cf ok z(3) by (simp add: AnalogSensor_verify_def py_truediv_def Let_def)
  qed
qed

lemma AnalogSensor_update:
  assumes "AnalogSensor_convert s x = Inr v" and "AnalogSensor_verify s v = Inr (ok, s2)"
  shows "update Finite (AnalogSensor_raw_read x) AnalogSensor_convert AnalogSensor_verify now s =
           (if ok
            then (case store_last s (Finite v) of
                    Inl e \<Rightarrow> Inl e
                  | Inr s3 \<Rightarrow> Inr (True, s3\<lparr>u_last_timestamp := now\<rparr>))
            else Inr (False, s2))"
proof -
  have rr: "AnalogSensor_raw_read x s = Inr (x, s)" by (simp add: AnalogSensor_raw_read_def)
  have same: "ok \<Longrightarrow> s2 = s"
    using assms(2) by (auto simp: AnalogSensor_verify_def Let_def split: sum.splits if_splits)
  have "update Finite (AnalogSensor_raw_read x) AnalogSensor_convert AnalogSensor_verify now s =
           (if ok
            then (case store_last s2 (Finite v) of
                    Inl e \<Rightarrow> Inl e
                  | Inr s3 \<Rightarrow> Inr (True, s3\<lparr>u_last_timestamp := now\<rparr>))
            else Inr (False, s2))"
    using rr assms(1) assms(2) AnalogSensor_verify_repeatable [OF assms(2)]
    by (rule update_repeatable_verify)
  then show ?thesis using same by (cases ok) simp_all
qed

lemma SFM3200_update:
  assumes "SFM3200_convert s x = Inr v"
  shows "update Finite (SFM3200_raw_read x) SFM3200_convert SFM3200_verify now s =
           (case store_last s (Finite v) of
              Inl e \<Rightarrow> Inl e
            | Inr s3 \<Rightarrow> Inr (True, s3\<lparr>u_last_timestamp := now\<rparr>))"
proof -
  have rr: "SFM3200_raw_read x s = Inr (x, s)" by (simp add: SFM3200_raw_read_def)
  have vf: "SFM3200_verify s v = Inr (True, s)" by (simp add: SFM3200_verify_def)
  have rep: "\<And>z. Sensor.more z = Sensor.more s \<Longrightarrow> SFM3200_verify z v = Inr (True, z)"
    by (simp add: SFM3200_verify_def)
  have "update Finite (SFM3200_raw_read x) SFM3200_convert SFM3200_verify now s =
           (if True
            then (case store_last s (Finite v) of
                    Inl e \<Rightarrow> Inl e
                  | Inr s3 \<Rightarrow> Inr (True, s3\<lparr>u_last_timestamp := now\<rparr>))
            else Inr (False, s))"
    using rr assms vf rep by (rule update_repeatable_verify)
  then show ?thesis by simp
qed

section \<open>Sensor.get and Sensor.reset\<close>

lemma wf_Sensor_init: "wf Sensor_init"
  by (simp add: wf_def Sensor_init_def DEFAULT_STORED_OBSERVATIONS_def)

lemma reset_wf:
  assumes "1 \<le> u_data_length s"
  shows "reset s = Inr (s\<lparr>u_data := replicate (nat (u_data_length s)) (Finite 0), u_i := 0\<rparr>)"
    and "wf (s\<lparr>u_data := replicate (nat (u_data_length s)) (Finite 0), u_i := 0\<rparr>)"
  using assms by (simp_all add: reset_def np_zeros_def data_length_def wf_def)

lemma get_wf:
  assumes "wf s" and "u_last_timestamp s \<noteq> - 1"
  shows "get s = Inr (u_data s ! nat ((u_i s - 1) mod u_data_length s))"
proof -
  let ?k = "(u_i s - 1) mod u_data_length s"
  from assms(1) have L: "1 \<le> u_data_length s" and len: "int (length (u_data s)) = u_data_length s"
    by (auto simp: wf_def)
  have k: "0 \<le> ?k" "?k < u_data_length s" using L by simp_all
  then have "np_getitem (u_data s) ?k = Inr (u_data s ! nat ?k)"
    using len by (simp add: np_getitem_def np_index_def)
  then show ?thesis using assms(2) L by (simp add: get_def py_mod_def)
qed


lemma get_after_store:
  assumes "wf s" and "now \<noteq> - 1"
  shows "\<exists>s3. store_last s v = Inr s3 \<and> wf (s3\<lparr>u_last_timestamp := now\<rparr>) \<and>
           get (s3\<lparr>u_last_timestamp := now\<rparr>) = Inr (np_float16 v)"
proof -
  let ?L = "u_data_length s"
  let ?s3 = "s\<lparr>u_data := (u_data s)[nat (u_i s) := np_float16 v], u_i := (u_i s + 1) mod ?L\<rparr>"
  let ?s4 = "?s3\<lparr>u_last_timestamp := now\<rparr>"
  from assms(1) have L: "1 \<le> ?L" and len: "length (u_data s) = nat ?L"
    and i: "0 \<le> u_i s" "u_i s < ?L"
    by (auto simp: wf_def)
  have st: "store_last s v = Inr ?s3" by (rule store_last_wf [OF assms(1)])
  have wf4: "wf ?s4" using L len i by (simp add: wf_def)
  have "((u_i s + 1) mod ?L - 1) mod ?L = u_i s"
    using i by (simp add: mod_diff_left_eq)
  then have "get ?s4 = Inr ((u_data s)[nat (u_i s) := np_float16 v] ! nat (u_i s))"
    using get_wf [OF wf4] assms(2) by simp
  also have "\<dots> = Inr (np_float16 v)" using len i by simp
  finally show ?thesis using st wf4 by blast
qed

text \<open>
  After an update that returned true, \<^verbatim>\<open>get\<close> returns the float16 of the converted
  reading, for the two sensors with a repeatable \<^verbatim>\<open>_verify\<close>.
\<close>

lemma AnalogSensor_get_after_update:
  assumes "wf s" and "now \<noteq> - 1"
    and "update Finite (AnalogSensor_raw_read x) AnalogSensor_convert AnalogSensor_verify now s
           = Inr (True, s')"
  shows "\<exists>v. AnalogSensor_convert s x = Inr v \<and> get s' = Inr (float16_of_real v) \<and>
           u_last_timestamp s' = now"
proof -
  obtain v where v: "AnalogSensor_convert s x = Inr v"
    using assms(3)
    by (cases "AnalogSensor_convert s x")
      (simp_all add: update_def AnalogSensor_raw_read_def)
  obtain ok s2 where vf: "AnalogSensor_verify s v = Inr (ok, s2)"
    using assms(3) v
    by (cases "AnalogSensor_verify s v")
      (auto simp: update_def AnalogSensor_raw_read_def)
  from get_after_store [OF assms(1,2), of "Finite v"] obtain s3 where
    s3: "store_last s (Finite v) = Inr s3"
      "get (s3\<lparr>u_last_timestamp := now\<rparr>) = Inr (np_float16 (Finite v))"
    by blast
  have "ok \<and> s' = s3\<lparr>u_last_timestamp := now\<rparr>"
    using assms(3) AnalogSensor_update [OF v vf, of now] s3(1)
    by (cases ok) simp_all
  then show ?thesis using v s3(2) by (simp add: np_float16_def)
qed

lemma SFM3200_get_after_update:
  assumes "wf s" and "now \<noteq> - 1"
  shows "\<exists>v s'. SFM3200_convert s x = Inr v \<and>
           update Finite (SFM3200_raw_read x) SFM3200_convert SFM3200_verify now s = Inr (True, s') \<and>
           get s' = Inr (float16_of_real v) \<and> u_last_timestamp s' = now"
proof -
  have "SFM3200_convert s x = Inr (real_of_int (x - FLOW_OFFSET) / real_of_int FLOW_SCALE_FACTOR)"
    by (simp add: SFM3200_convert_def py_truediv_def FLOW_SCALE_FACTOR_def)
  then obtain v where v: "SFM3200_convert s x = Inr v" ..
  from get_after_store [OF assms, of "Finite v"] obtain s3 where
    s3: "store_last s (Finite v) = Inr s3"
      "get (s3\<lparr>u_last_timestamp := now\<rparr>) = Inr (np_float16 (Finite v))"
    by blast
  show ?thesis
    using SFM3200_update [OF v, of now] s3 v by (simp add: np_float16_def)
qed


lemma wf_SimSensor_init: "wf (SimSensor_init lo hi rng)"
  by (simp add: wf_def SimSensor_init_def Sensor_init_def DEFAULT_STORED_OBSERVATIONS_def)

text \<open>Two float16 numbers, and their narrowing.\<close>

lemma float16_of_real_zero: "float16_of_real 0 = Finite 0"
  by code_simp

lemma float16_of_real_half: "float16_of_real (1 / 2) = Finite (1 / 2)"
  by code_simp

section \<open>What get returns after a history\<close>



lemma same_base_refl: "same_base x x"
  by (simp add: same_base_def)












lemma SFM3200_raw_read_base: "SFM3200_raw_read e x = Inr (r, y) \<Longrightarrow> same_base x y"
  by (auto simp: SFM3200_raw_read_def same_base_def)

lemma SFM3200_verify_base: "SFM3200_verify x v = Inr (ok, y) \<Longrightarrow> same_base x y"
  by (auto simp: SFM3200_verify_def same_base_def)

lemma SimSensor_raw_read_base: "SimSensor_raw_read x = Inr (r, y) \<Longrightarrow> same_base x y"
  by (auto simp: SimSensor_raw_read_def random_def same_base_def split: sum.splits if_splits)

lemma SimSensor_verify_base: "SimSensor_verify x v = Inr (ok, y) \<Longrightarrow> same_base x y"
  by (auto simp: SimSensor_verify_def random_def same_base_def split: if_splits)




text \<open>
  C10. \<^verbatim>\<open>reset\<close> replaces the buffer by zeros and puts the cursor at 0, and leaves every
  other attribute alone, the timestamp of the last storing update included. So for a
  sensor of capacity at least one whose timestamp is set (some update has stored a
  reading): after \<^verbatim>\<open>reset\<close> the property \<^verbatim>\<open>data\<close> is empty, the attributes of the
  subclass (the calibration) are unchanged, \<^verbatim>\<open>get\<close> does not fail and returns the zeroed
  cell \<open>0.0\<close>, and \<^verbatim>\<open>age\<close> still counts from the update made before the reset.
\<close>

theorem reset_keeps_timestamp:
  assumes "u_last_timestamp s \<noteq> - 1" and "1 \<le> u_data_length s"
  shows "\<exists>s'. reset s = Inr s' \<and>
           u_data s' = replicate (nat (u_data_length s)) (Finite 0) \<and> u_i s' = 0 \<and>
           data s' = [] \<and>
           Sensor.more s' = Sensor.more s \<and>
           u_data_length s' = u_data_length s \<and>
           u_last_timestamp s' = u_last_timestamp s \<and>
           get s' = Inr (Finite 0) \<and>
           age now s' = now - u_last_timestamp s"
proof -
  let ?L = "u_data_length s"
  let ?s' = "s\<lparr>u_data := replicate (nat ?L) (Finite 0), u_i := 0\<rparr>"
  have r: "reset s = Inr ?s'" and wf': "wf ?s'"
    using reset_wf [OF assms(2)] by simp_all
  have "data ?s' = filter (\<lambda>x. x \<noteq> Finite 0) (rotate (nat (u_i ?s')) (u_data ?s'))"
    by (rule data_wf [OF wf'])
  then have d: "data ?s' = []" by simp
  have "get ?s' = Inr (u_data ?s' ! nat ((u_i ?s' - 1) mod u_data_length ?s'))"
    using get_wf [OF wf'] assms(1) by simp
  moreover have "nat ((0 - 1) mod ?L) < nat ?L" using assms(2) by simp
  ultimately have g: "get ?s' = Inr (Finite 0)" by simp
  have a: "age now ?s' = now - u_last_timestamp s"
    using assms(1) by (simp add: age_def)
  show ?thesis using r d g a by simp
qed

text \<open>
  The theorem at an AnalogSensor after the update that stored the reading \<open>0.5\<close> at
  clock reading 1000: reset, then \<^verbatim>\<open>data\<close>, \<^verbatim>\<open>get\<close> and \<^verbatim>\<open>age\<close> at clock reading 1005.
\<close>

theorem reset_keeps_timestamp_witness:
  "update Finite (AnalogSensor_raw_read (5 / 2)) AnalogSensor_convert AnalogSensor_verify 1000
     (AnalogSensor_init None (Some 5) None) =
   Inr (True, (AnalogSensor_init None (Some 5) None)
                \<lparr>u_data := (replicate 128 (Finite 0))[0 := Finite (1 / 2)], u_i := 1,
                  u_last_timestamp := 1000\<rparr>) \<and>
   get ((AnalogSensor_init None (Some 5) None)
          \<lparr>u_data := (replicate 128 (Finite 0))[0 := Finite (1 / 2)], u_i := 1,
            u_last_timestamp := 1000\<rparr>) = Inr (Finite (1 / 2)) \<and>
   reset ((AnalogSensor_init None (Some 5) None)
          \<lparr>u_data := (replicate 128 (Finite 0))[0 := Finite (1 / 2)], u_i := 1,
            u_last_timestamp := 1000\<rparr>) =
     Inr ((AnalogSensor_init None (Some 5) None)
          \<lparr>u_data := replicate 128 (Finite 0), u_i := 0, u_last_timestamp := 1000\<rparr>) \<and>
   data ((AnalogSensor_init None (Some 5) None)
          \<lparr>u_data := replicate 128 (Finite 0), u_i := 0, u_last_timestamp := 1000\<rparr>) = [] \<and>
   get ((AnalogSensor_init None (Some 5) None)
          \<lparr>u_data := replicate 128 (Finite 0), u_i := 0, u_last_timestamp := 1000\<rparr>)
     = Inr (Finite 0) \<and>
   age 1005 ((AnalogSensor_init None (Some 5) None)
          \<lparr>u_data := replicate 128 (Finite 0), u_i := 0, u_last_timestamp := 1000\<rparr>) = 5"
  using reset_keeps_timestamp [of "(AnalogSensor_init None (Some 5) None)
          \<lparr>u_data := (replicate 128 (Finite 0))[0 := Finite (1 / 2)], u_i := 1,
            u_last_timestamp := 1000\<rparr>" 1005]
  by (simp add: update_def AnalogSensor_raw_read_def AnalogSensor_convert_def
      AnalogSensor_verify_def AnalogSensor_init_def Sensor_init_def
      DEFAULT_STORED_OBSERVATIONS_def DEFAULT_offset_voltage_def DEFAULT_output_span_def
      py_truediv_def store_last_def np_setitem_def np_index_def py_mod_def data_length_def
      get_def np_getitem_def age_def reset_def np_zeros_def data_def np_roll_def
      np_nonzero_select_def np_float16_def float16_of_real_half)

section \<open>AnalogSensor calibration\<close>

text \<open>
  C4, as claimed: on rejection \<^verbatim>\<open>_verify\<close> sets \<^verbatim>\<open>offset_voltage\<close> to the minimum of its
  old value and the raw, unconverted reading, so that afterwards
  \<open>offset_voltage \<le> min offset_voltage_before raw\<close>. The code takes the minimum with
  the argument of \<^verbatim>\<open>_verify\<close>, which is the converted value. With the default
  calibration (offset 0, span 5, factor 1) the raw reading \<open>-5\<close> converts to \<open>-1\<close>; the
  rejection sets \<^verbatim>\<open>offset_voltage\<close> to \<open>-1\<close>, which is neither \<open>min 0 (-5)\<close> nor below it.
\<close>

theorem AnalogSensor_verify_uses_converted_value:
  "AnalogSensor_convert (AnalogSensor_init None None None) (- 5) = Inr (- 1) \<and>
   AnalogSensor_verify (AnalogSensor_init None None None) (- 1) =
     Inr (False, (AnalogSensor_init None None None)\<lparr>offset_voltage := - 1\<rparr>) \<and>
   \<not> (offset_voltage ((AnalogSensor_init None None None)\<lparr>offset_voltage := - 1\<rparr>)
        \<le> min (offset_voltage (AnalogSensor_init None None None)) (- 5))"
  by (simp add: AnalogSensor_convert_def AnalogSensor_verify_def AnalogSensor_init_def
      py_truediv_def DEFAULT_offset_voltage_def DEFAULT_output_span_def Let_def)

text \<open>
  C4, amended: with a non-zero \<^verbatim>\<open>conversion_factor\<close>, \<^verbatim>\<open>_verify\<close> accepts if and only if
  \<open>0 \<le> value / conversion_factor \<le> 1\<close> and then changes nothing; on rejection it sets
  \<^verbatim>\<open>offset_voltage\<close> to \<open>min offset_voltage value\<close>, where \<open>value\<close> is the converted
  reading it was given, then \<^verbatim>\<open>output_span\<close> to \<open>max output_span (value - offset_voltage)\<close>
  with the new offset, and still reports the reading as failed. With
  \<^verbatim>\<open>conversion_factor\<close> zero the division raises \<^verbatim>\<open>ZeroDivisionError\<close>.
\<close>

theorem AnalogSensor_verify_spec:
  "(conversion_factor s = 0 \<longrightarrow> AnalogSensor_verify s v = Inl ZeroDivisionError) \<and>
   (conversion_factor s \<noteq> 0 \<longrightarrow>
      AnalogSensor_verify s v =
        (if 0 \<le> v / conversion_factor s \<and> v / conversion_factor s \<le> 1
         then Inr (True, s)
         else Inr (False,
                s\<lparr>offset_voltage := min (offset_voltage s) v,
                  output_span := max (output_span s) (v - min (offset_voltage s) v)\<rparr>)))"
  by (simp add: AnalogSensor_verify_def py_truediv_def Let_def)

text \<open>
  The theorem at offset 1, span 4 and factor 2 (the value 1 is accepted, the value 8 is
  rejected and widens the span to 7), and at factor 0.
\<close>

theorem AnalogSensor_verify_spec_witness:
  "conversion_factor (AnalogSensor_init (Some 1) (Some 4) (Some 2)) \<noteq> 0 \<and>
   AnalogSensor_verify (AnalogSensor_init (Some 1) (Some 4) (Some 2)) 1 =
     Inr (True, AnalogSensor_init (Some 1) (Some 4) (Some 2)) \<and>
   AnalogSensor_verify (AnalogSensor_init (Some 1) (Some 4) (Some 2)) 8 =
     Inr (False, (AnalogSensor_init (Some 1) (Some 4) (Some 2))\<lparr>output_span := 7\<rparr>) \<and>
   AnalogSensor_verify (AnalogSensor_init (Some 1) (Some 4) (Some 0)) 8 = Inl ZeroDivisionError"
  using AnalogSensor_verify_spec [of "AnalogSensor_init (Some 1) (Some 4) (Some 2)" 1]
    AnalogSensor_verify_spec [of "AnalogSensor_init (Some 1) (Some 4) (Some 2)" 8]
    AnalogSensor_verify_spec [of "AnalogSensor_init (Some 1) (Some 4) (Some 0)" 8]
  by (simp add: AnalogSensor_init_def)

section \<open>SFM3200 conversion\<close>

text \<open>
  C9. For every raw integer reading, the signed 16-bit ones included, \<^verbatim>\<open>_convert\<close>
  returns \<open>(raw - 32768) / 120\<close>; in particular it maps 32768 to \<open>0.0\<close> and
  \<open>32768 + 120\<close> to \<open>1.0\<close>; and \<^verbatim>\<open>_verify\<close> returns true for every value and leaves the
  object unchanged.
\<close>

theorem SFM3200_convert_spec:
  "SFM3200_convert self raw = Inr ((real_of_int raw - 32768) / 120) \<and>
   SFM3200_convert self 32768 = Inr 0 \<and>
   SFM3200_convert self (32768 + 120) = Inr 1 \<and>
   SFM3200_verify self v = Inr (True, self)"
  by (simp add: SFM3200_convert_def SFM3200_verify_def py_truediv_def FLOW_OFFSET_def
      FLOW_SCALE_FACTOR_def)

section \<open>Alarm lifecycle and identity\<close>

text \<open>
  C5. \<^verbatim>\<open>deactivate\<close> does nothing on an inactive alarm; on an active one it sets
  \<^verbatim>\<open>end_time\<close> to the clock reading and clears \<^verbatim>\<open>active\<close>. A second call therefore changes
  nothing: \<^verbatim>\<open>end_time\<close> keeps the value of the first call.
\<close>

theorem deactivate_once:
  "(\<not> active a \<longrightarrow> deactivate t1 a = a) \<and>
   (active a \<longrightarrow> deactivate t1 a = a\<lparr>end_time := Some t1, active := False\<rparr>) \<and>
   deactivate t2 (deactivate t1 a) = deactivate t1 a \<and>
   (active a \<longrightarrow> end_time (deactivate t2 (deactivate t1 a)) = Some t1)"
  by (simp add: deactivate_def)

text \<open>
  The theorem at an alarm constructed active (two calls, at clock readings 20 and 30)
  and at one constructed with severity \<open>OFF\<close>.
\<close>

theorem deactivate_once_witness:
  "active (fst (Alarm_init 0 10 () (Severity 1) None True True None None)) \<and>
   end_time (deactivate 20 (fst (Alarm_init 0 10 () (Severity 1) None True True None None))) = Some 20 \<and>
   \<not> active (deactivate 20 (fst (Alarm_init 0 10 () (Severity 1) None True True None None))) \<and>
   end_time (deactivate 30 (deactivate 20 (fst (Alarm_init 0 10 () (Severity 1) None True True None None)))) = Some 20 \<and>
   \<not> active (fst (Alarm_init 0 10 () OFF None True True None None)) \<and>
   deactivate 20 (fst (Alarm_init 0 10 () OFF None True True None None)) =
     fst (Alarm_init 0 10 () OFF None True True None None)"
  using deactivate_once [of "fst (Alarm_init 0 10 () (Severity 1) None True True None None)" 20 30]
    deactivate_once [of "fst (Alarm_init 0 10 () OFF None True True None None)" 20 30]
  by (simp add: Alarm_init_def next_id_def deactivate_def)

lemma deactivate_fields:
  "alarm_id (deactivate t a) = alarm_id a"
  "u_severity (deactivate t a) = u_severity a"
  "u_alarm_type (deactivate t a) = u_alarm_type a"
  "start_time (deactivate t a) = start_time a"
  by (simp_all add: deactivate_def)

lemma deactivations_fields:
  "alarm_id (deactivations ts a) = alarm_id a"
  "u_severity (deactivations ts a) = u_severity a"
  "u_alarm_type (deactivations ts a) = u_alarm_type a"
  by (induction ts arbitrary: a) (simp_all add: deactivate_fields)

lemma deactivations_inactive:
  "\<not> active a \<Longrightarrow> deactivations ts a = a"
  by (induction ts) (simp_all add: deactivate_def)

lemma deactivations_iff:
  "(end_time a \<noteq> None) = (\<not> active a) \<Longrightarrow>
   (end_time (deactivations ts a) \<noteq> None) = (\<not> active (deactivations ts a))"
proof (induction ts arbitrary: a)
  case Nil
  then show ?case by simp
next
  case (Cons t ts)
  have "(end_time (deactivate t a) \<noteq> None) = (\<not> active (deactivate t a))"
    using Cons.prems by (simp add: deactivate_def)
  from Cons.IH [OF this] show ?case by simp
qed

text \<open>
  C6, as claimed: in every state reached by construction and then any number of
  \<^verbatim>\<open>deactivate\<close> calls, \<^verbatim>\<open>end_time\<close> is present if and only if the alarm is inactive. An
  alarm constructed with severity \<open>OFF\<close> is inactive and has no \<^verbatim>\<open>end_time\<close>, and
  \<^verbatim>\<open>deactivate\<close> never gives it one.
\<close>

theorem off_alarm_inactive_without_end_time:
  "\<not> active (fst (Alarm_init 0 10 () OFF None True True None None)) \<and>
   end_time (fst (Alarm_init 0 10 () OFF None True True None None)) = None \<and>
   \<not> ((end_time (deactivations [20, 30] (fst (Alarm_init 0 10 () OFF None True True None None))) \<noteq> None)
       = (\<not> active (deactivations [20, 30] (fst (Alarm_init 0 10 () OFF None True True None None)))))"
  by (simp add: Alarm_init_def next_id_def deactivate_def)

text \<open>
  C6, amended: in every such state a present \<^verbatim>\<open>end_time\<close> implies that the alarm is
  inactive; for an alarm constructed with a severity other than \<open>OFF\<close> the converse holds
  too; an alarm constructed with severity \<open>OFF\<close> stays inactive with no \<^verbatim>\<open>end_time\<close>; and
  construction makes the alarm active exactly when the severity is not \<open>OFF\<close>.
\<close>

theorem alarm_end_time_invariant:
  "(end_time (deactivations ts (fst (Alarm_init c now ty sev st la pe va me))) \<noteq> None \<longrightarrow>
      \<not> active (deactivations ts (fst (Alarm_init c now ty sev st la pe va me)))) \<and>
   (sev \<noteq> OFF \<longrightarrow>
      (end_time (deactivations ts (fst (Alarm_init c now ty sev st la pe va me))) \<noteq> None)
      = (\<not> active (deactivations ts (fst (Alarm_init c now ty sev st la pe va me))))) \<and>
   (sev = OFF \<longrightarrow>
      \<not> active (deactivations ts (fst (Alarm_init c now ty sev st la pe va me))) \<and>
      end_time (deactivations ts (fst (Alarm_init c now ty sev st la pe va me))) = None) \<and>
   active (fst (Alarm_init c now ty sev st la pe va me)) = (sev \<noteq> OFF)"
proof -
  let ?a = "fst (Alarm_init c now ty sev st la pe va me)"
  have fresh: "end_time ?a = None" "active ?a = (sev \<noteq> OFF)"
    by (simp_all add: Alarm_init_def next_id_def)
  show ?thesis
  proof (cases "sev = OFF")
    case True
    then have "\<not> active ?a" using fresh by simp
    then have "deactivations ts ?a = ?a" by (rule deactivations_inactive)
    then show ?thesis using fresh True by simp
  next
    case False
    then have "(end_time ?a \<noteq> None) = (\<not> active ?a)" using fresh by simp
    from deactivations_iff [OF this, of ts] show ?thesis using fresh False by simp
  qed
qed

text \<open>
  The theorem at an alarm of severity \<open>Severity 2\<close>, before and after two calls of
  \<^verbatim>\<open>deactivate\<close>, and at an alarm of severity \<open>OFF\<close>.
\<close>

theorem alarm_end_time_invariant_witness:
  "Severity 2 \<noteq> OFF \<and>
   end_time (deactivations [20, 30] (fst (Alarm_init 0 10 () (Severity 2) None True True None None))) = Some 20 \<and>
   \<not> active (deactivations [20, 30] (fst (Alarm_init 0 10 () (Severity 2) None True True None None))) \<and>
   end_time (deactivations [] (fst (Alarm_init 0 10 () (Severity 2) None True True None None))) = None \<and>
   active (deactivations [] (fst (Alarm_init 0 10 () (Severity 2) None True True None None))) \<and>
   \<not> active (deactivations [20] (fst (Alarm_init 0 10 () OFF None True True None None))) \<and>
   end_time (deactivations [20] (fst (Alarm_init 0 10 () OFF None True True None None))) = None"
  using alarm_end_time_invariant [of "[20, 30]" 0 10 "()" "Severity 2" None True True None None]
    alarm_end_time_invariant [of "[]" 0 10 "()" "Severity 2" None True True None None]
    alarm_end_time_invariant [of "[20]" 0 10 "()" OFF None True True None None]
  by (simp add: Alarm_init_def next_id_def deactivate_def)

lemma construct_all_ids:
  "map alarm_id (fst (construct_all c args)) = map (\<lambda>k. c + int k) [0..<length args] \<and>
   snd (construct_all c args) = c + int (length args)"
proof (induction args arbitrary: c)
  case Nil
  then show ?case by simp
next
  case (Cons x rest)
  obtain now ty sev st la pe va me where x: "x = (now, ty, sev, st, la, pe, va, me)"
    by (cases x) auto
  obtain a where init: "Alarm_init c now ty sev st la pe va me = (a, c + 1)" "alarm_id a = c"
    by (simp add: Alarm_init_def next_id_def)
  obtain as n where rest: "construct_all (c + 1) rest = (as, n)"
    by (cases "construct_all (c + 1) rest") auto
  have shift: "map (\<lambda>k. c + int k) [0..<Suc (length rest)]
                 = c # map (\<lambda>k. (c + 1) + int k) [0..<length rest]"
    by (simp add: upt_rec [of 0] map_Suc_upt [symmetric] del: upt_Suc)
  show ?case
    using Cons.IH [of "c + 1"] init rest shift x
    by (simp del: upt_Suc)
qed

text \<open>
  C7. The alarms constructed in one process, from any state \<open>c\<close> of the class counter,
  receive the ids \<open>c, c + 1, c + 2, ...\<close> in allocation order: strictly increasing and
  pairwise distinct. The id is written by the constructor only: \<^verbatim>\<open>deactivate\<close>, the one
  method that changes an alarm, keeps it.
\<close>

theorem alarm_ids_distinct_increasing:
  "map alarm_id (fst (construct_all c args)) = map (\<lambda>k. c + int k) [0..<length args] \<and>
   sorted_wrt (<) (map alarm_id (fst (construct_all c args))) \<and>
   distinct (map alarm_id (fst (construct_all c args))) \<and>
   length (fst (construct_all c args)) = length args \<and>
   alarm_id (deactivate t a) = alarm_id a \<and>
   alarm_id (deactivations ts a) = alarm_id a"
proof -
  have ids: "map alarm_id (fst (construct_all c args)) = map (\<lambda>k. c + int k) [0..<length args]"
    using construct_all_ids [of c args] by simp
  have "sorted_wrt (<) (map (\<lambda>k. c + int k) [0..<length args])"
    by (simp add: sorted_wrt_map sorted_wrt_upt)
  moreover have "distinct (map (\<lambda>k. c + int k) [0..<length args])"
    by (simp add: distinct_map inj_on_def)
  moreover have "length (fst (construct_all c args)) = length args"
    using ids by (metis length_map length_upt minus_nat.diff_0)
  ultimately show ?thesis
    using ids by (simp add: deactivate_fields deactivations_fields)
qed

end
